theory Spec2Isabelle
  imports Complex_Main
begin

section \<open>Vector helpers of \<^verbatim>\<open>src/main.cpp\<close>\<close>

text \<open>
  The program computes with C++ \<^verbatim>\<open>float\<close>. Throughout this development a
  \<^verbatim>\<open>float\<close> is modelled as a \<^typ>\<open>real\<close> and every operation
  (\<^verbatim>\<open>+\<close>, \<^verbatim>\<open>-\<close>, \<^verbatim>\<open>*\<close>, \<^verbatim>\<open>/\<close>, \<^verbatim>\<open>std::sqrt\<close>, \<^verbatim>\<open>std::sin\<close>,
  \<^verbatim>\<open>std::cos\<close>) as the exact operation on the reals: rounding, overflow, infinities
  and NaN are not part of the model. All results below are statements about the
  algorithm in exact arithmetic, with one exception: \<open>normalize_vec3_fl\<close> is a second
  model of \<^verbatim>\<open>normalize_vec3\<close> in which every operation is followed by a rounding
  function, for what the function does on vectors too short for the float format.

  \<^verbatim>\<open>struct Vec3 { float x, y, z; };\<close>
\<close>

datatype Vec3 = Vec3 (vx: real) (vy: real) (vz: real)

text \<open>\<^verbatim>\<open>static Vec3 sub(const Vec3 &a, const Vec3 &b)\<close>\<close>

definition sub :: "Vec3 \<Rightarrow> Vec3 \<Rightarrow> Vec3" where
  "sub a b = Vec3 (vx a - vx b) (vy a - vy b) (vz a - vz b)"

text \<open>\<^verbatim>\<open>static Vec3 cross(const Vec3 &a, const Vec3 &b)\<close>\<close>

definition cross :: "Vec3 \<Rightarrow> Vec3 \<Rightarrow> Vec3" where
  "cross a b =
     Vec3 (vy a * vz b - vz a * vy b)
          (vz a * vx b - vx a * vz b)
          (vx a * vy b - vy a * vx b)"

text \<open>
  \<^verbatim>\<open>static Vec3 normalize_vec3(const Vec3 &v)\<close>: the length is computed first, the
  guard \<^verbatim>\<open>len <= 0.0f\<close> returns the zero vector, and only the other branch divides.
\<close>

definition normalize_vec3 :: "Vec3 \<Rightarrow> Vec3" where
  "normalize_vec3 v =
     (let len = sqrt (vx v * vx v + vy v * vy v + vz v * vz v)
      in if len \<le> 0 then Vec3 0 0 0
         else Vec3 (vx v / len) (vy v / len) (vz v / len))"

subsection \<open>\<^verbatim>\<open>normalize_vec3\<close> with rounded operations\<close>

text \<open>
  The same function, with the float arithmetic made visible. Every operation yields the
  rounded exact result, \<open>rnd\<close> being the rounding of the float format and a parameter of
  the model: \<^verbatim>\<open>v.x * v.x + v.y * v.y + v.z * v.z\<close> is two additions of three products,
  from left to right, and \<^verbatim>\<open>std::sqrt\<close> rounds once more. Round-to-nearest in IEEE
  single precision maps every real of magnitude below \<open>1 / 2 ^ 150\<close> to zero.

  A C++ float division by zero raises nothing; it yields an infinity or a NaN. The model
  reports a zero divisor as the fault \<open>DivisionByZero\<close>, so that "the function never
  divides by zero" is a statement about its result.
\<close>

datatype fault = DivisionByZero

definition len_fl :: "(real \<Rightarrow> real) \<Rightarrow> Vec3 \<Rightarrow> real" where
  "len_fl rnd v =
     rnd (sqrt (rnd (rnd (rnd (vx v * vx v) + rnd (vy v * vy v)) + rnd (vz v * vz v))))"

definition div_fl :: "(real \<Rightarrow> real) \<Rightarrow> real \<Rightarrow> real \<Rightarrow> fault + real" where
  "div_fl rnd a b = (if b = 0 then Inl DivisionByZero else Inr (rnd (a / b)))"

definition normalize_vec3_fl :: "(real \<Rightarrow> real) \<Rightarrow> Vec3 \<Rightarrow> fault + Vec3" where
  "normalize_vec3_fl rnd v =
     (let len = len_fl rnd v
      in if len \<le> 0 then Inr (Vec3 0 0 0)
         else (case div_fl rnd (vx v) len of
                 Inl e \<Rightarrow> Inl e
               | Inr a \<Rightarrow>
                   (case div_fl rnd (vy v) len of
                      Inl e \<Rightarrow> Inl e
                    | Inr b \<Rightarrow>
                        (case div_fl rnd (vz v) len of
                           Inl e \<Rightarrow> Inl e
                         | Inr c \<Rightarrow> Inr (Vec3 a b c)))))"

subsection \<open>Measuring vectors\<close>

text \<open>
  Length and inner product are not functions of the program; they are the yardsticks
  the properties are stated with. \<open>vlen\<close> is the expression \<^verbatim>\<open>normalize_vec3\<close>
  computes for \<^verbatim>\<open>len\<close>.
\<close>

definition vlen :: "Vec3 \<Rightarrow> real" where
  "vlen v = sqrt (vx v * vx v + vy v * vy v + vz v * vz v)"

definition dot :: "Vec3 \<Rightarrow> Vec3 \<Rightarrow> real" where
  "dot a b = vx a * vx b + vy a * vy b + vz a * vz b"

definition neg :: "Vec3 \<Rightarrow> Vec3" where
  "neg v = Vec3 (- vx v) (- vy v) (- vz v)"

section \<open>Render settings\<close>

text \<open>
  \<^verbatim>\<open>struct RenderSettings\<close> with its default member initialisers. The field
  \<^verbatim>\<open>power\<close> is named \<open>power_s\<close> here, since \<open>power\<close> is HOL's exponentiation.
  The two \<^verbatim>\<open>int\<close> fields are only stored and copied (no arithmetic), so they are
  modelled as \<^typ>\<open>int\<close>; the arrays \<^verbatim>\<open>float colorA[3]\<close>, \<^verbatim>\<open>float colorB[3]\<close>
  are triples.
\<close>

record RenderSettings =
  camDistance :: real
  camYaw :: real
  camPitch :: real
  fov :: real
  autoRotate :: bool
  rotationSpeed :: real
  power_s :: real
  maxIterations :: int
  bailout :: real
  maxSteps :: int
  maxDist :: real
  epsilon :: real
  enableAO :: bool
  enableShadows :: bool
  colorA :: "real \<times> real \<times> real"
  colorB :: "real \<times> real \<times> real"

text \<open>\<^verbatim>\<open>RenderSettings()\<close>: the value-initialised struct, every member at its initialiser.\<close>

definition default_settings :: RenderSettings where
  "default_settings =
     \<lparr> camDistance = 4, camYaw = 0, camPitch = 0.4, fov = 1,
       autoRotate = True, rotationSpeed = 0.2,
       power_s = 8, maxIterations = 18, bailout = 2,
       maxSteps = 200, maxDist = 25, epsilon = 0.001,
       enableAO = True, enableShadows = True,
       colorA = (0.2, 0.3, 0.6), colorB = (0.8, 0.9, 1.0) \<rparr>"

section \<open>One frame of the main loop\<close>

subsection \<open>Inputs of a frame\<close>

text \<open>
  The ImGui widgets are an external library: each one receives a pointer to a settings
  field and either leaves the field alone or stores a value chosen by the user. A widget
  is therefore modelled by an optional value to store (\<open>None\<close>: untouched this frame),
  \<^verbatim>\<open>ImGui::CollapsingHeader\<close> and \<^verbatim>\<open>ImGui::Button\<close> by the \<^verbatim>\<open>bool\<close> they return.
  The fields are listed in the order in which \<^verbatim>\<open>main\<close> issues the calls.
\<close>

record UiInput =
  hdrCamera :: bool
  chkAutoRotate :: "bool option"
  sldDistance :: "real option"
  sldYaw :: "real option"
  sldPitch :: "real option"
  sldFov :: "real option"
  sldRotationSpeed :: "real option"
  btnResetCamera :: bool
  hdrFractal :: bool
  sldPower :: "real option"
  sldIterations :: "int option"
  sldBailout :: "real option"
  hdrRaymarch :: bool
  sldMaxSteps :: "int option"
  sldMaxDist :: "real option"
  sldEpsilon :: "real option"
  hdrShading :: bool
  chkAO :: "bool option"
  chkShadows :: "bool option"
  edtColorA :: "(real \<times> real \<times> real) option"
  edtColorB :: "(real \<times> real \<times> real) option"
  btnResetEverything :: bool

text \<open>
  What a frame reads from outside the program: \<^verbatim>\<open>glfwGetTime()\<close> (converted to
  \<^verbatim>\<open>float\<close>), the widgets, and \<^verbatim>\<open>glfwGetFramebufferSize\<close>.
\<close>

record FrameInput =
  frame_time :: real
  frame_ui :: UiInput
  fb_width :: int
  fb_height :: int

text \<open>A frame in which the user touches nothing; the three default-open headers are open.\<close>

definition idle_ui :: UiInput where
  "idle_ui =
     \<lparr> hdrCamera = True, chkAutoRotate = None, sldDistance = None, sldYaw = None,
       sldPitch = None, sldFov = None, sldRotationSpeed = None, btnResetCamera = False,
       hdrFractal = True, sldPower = None, sldIterations = None, sldBailout = None,
       hdrRaymarch = False, sldMaxSteps = None, sldMaxDist = None, sldEpsilon = None,
       hdrShading = True, chkAO = None, chkShadows = None, edtColorA = None,
       edtColorB = None, btnResetEverything = False \<rparr>"

subsection \<open>The steps of a frame\<close>

text \<open>
  \<^verbatim>\<open>if (settings.autoRotate) { settings.camYaw = time * settings.rotationSpeed; }\<close>
\<close>

definition auto_rotate :: "real \<Rightarrow> RenderSettings \<Rightarrow> RenderSettings" where
  "auto_rotate t s = (if autoRotate s then s\<lparr>camYaw := t * rotationSpeed s\<rparr> else s)"

text \<open>The effect of one widget on the field it points to.\<close>

definition widget :: "'a option \<Rightarrow> 'a \<Rightarrow> 'a" where
  "widget w old = (case w of None \<Rightarrow> old | Some v \<Rightarrow> v)"

text \<open>The body of \<^verbatim>\<open>if (ImGui::Button("Reset camera")) { ... }\<close>: four assignments.\<close>

definition reset_camera :: "RenderSettings \<Rightarrow> RenderSettings" where
  "reset_camera s = s\<lparr>camDistance := 4, camYaw := 0, camPitch := 0.4, fov := 1\<rparr>"

text \<open>The "Camera" section: six widgets, then the button, all inside the header.\<close>

definition ui_camera :: "UiInput \<Rightarrow> RenderSettings \<Rightarrow> RenderSettings" where
  "ui_camera u s =
     (if hdrCamera u then
        let s' = s\<lparr> autoRotate := widget (chkAutoRotate u) (autoRotate s),
                    camDistance := widget (sldDistance u) (camDistance s),
                    camYaw := widget (sldYaw u) (camYaw s),
                    camPitch := widget (sldPitch u) (camPitch s),
                    fov := widget (sldFov u) (fov s),
                    rotationSpeed := widget (sldRotationSpeed u) (rotationSpeed s) \<rparr>
        in if btnResetCamera u then reset_camera s' else s'
      else s)"

definition ui_fractal :: "UiInput \<Rightarrow> RenderSettings \<Rightarrow> RenderSettings" where
  "ui_fractal u s =
     (if hdrFractal u then
        s\<lparr> power_s := widget (sldPower u) (power_s s),
           maxIterations := widget (sldIterations u) (maxIterations s),
           bailout := widget (sldBailout u) (bailout s) \<rparr>
      else s)"

definition ui_raymarch :: "UiInput \<Rightarrow> RenderSettings \<Rightarrow> RenderSettings" where
  "ui_raymarch u s =
     (if hdrRaymarch u then
        s\<lparr> maxSteps := widget (sldMaxSteps u) (maxSteps s),
           maxDist := widget (sldMaxDist u) (maxDist s),
           epsilon := widget (sldEpsilon u) (epsilon s) \<rparr>
      else s)"

definition ui_shading :: "UiInput \<Rightarrow> RenderSettings \<Rightarrow> RenderSettings" where
  "ui_shading u s =
     (if hdrShading u then
        s\<lparr> enableAO := widget (chkAO u) (enableAO s),
           enableShadows := widget (chkShadows u) (enableShadows s),
           colorA := widget (edtColorA u) (colorA s),
           colorB := widget (edtColorB u) (colorB s) \<rparr>
      else s)"

text \<open>
  \<^verbatim>\<open>if (ImGui::Button("Reset everything")) { settings = RenderSettings(); }\<close>
\<close>

definition reset_everything :: "UiInput \<Rightarrow> RenderSettings \<Rightarrow> RenderSettings" where
  "reset_everything u s = (if btnResetEverything u then default_settings else s)"

text \<open>The whole window, between \<^verbatim>\<open>ImGui::Begin\<close> and \<^verbatim>\<open>ImGui::End\<close>.\<close>

definition ui :: "UiInput \<Rightarrow> RenderSettings \<Rightarrow> RenderSettings" where
  "ui u s = reset_everything u (ui_shading u (ui_raymarch u (ui_fractal u (ui_camera u s))))"

text \<open>
  \<^verbatim>\<open>std::clamp(v, lo, hi)\<close> is \<^verbatim>\<open>(v < lo) ? lo : (hi < v) ? hi : v\<close> and
  \<^verbatim>\<open>std::max(a, b)\<close> is \<^verbatim>\<open>(a < b) ? b : a\<close>.
\<close>

definition std_clamp :: "real \<Rightarrow> real \<Rightarrow> real \<Rightarrow> real" where
  "std_clamp v lo hi = (if v < lo then lo else if hi < v then hi else v)"

definition std_max :: "real \<Rightarrow> real \<Rightarrow> real" where
  "std_max a b = (if a < b then b else a)"

text \<open>
  \<^verbatim>\<open>settings.camPitch = std::clamp(settings.camPitch, -1.5f, 1.5f);\<close>
  \<^verbatim>\<open>settings.camDistance = std::max(settings.camDistance, 0.5f);\<close>
\<close>

definition clamp_camera :: "RenderSettings \<Rightarrow> RenderSettings" where
  "clamp_camera s =
     s\<lparr> camPitch := std_clamp (camPitch s) (- 1.5) 1.5,
        camDistance := std_max (camDistance s) 0.5 \<rparr>"

subsection \<open>The camera basis\<close>

text \<open>
  The locals \<^verbatim>\<open>camPos\<close>, \<^verbatim>\<open>target\<close>, \<^verbatim>\<open>forward\<close>, \<^verbatim>\<open>worldUp\<close>, \<^verbatim>\<open>right\<close>
  and \<^verbatim>\<open>up\<close> of \<^verbatim>\<open>main\<close>, as functions of the settings they are computed from.
\<close>

definition camPos :: "RenderSettings \<Rightarrow> Vec3" where
  "camPos s =
     (let cp = cos (camPitch s); sp = sin (camPitch s);
          cy = cos (camYaw s); sy = sin (camYaw s)
      in Vec3 (camDistance s * cp * cy) (camDistance s * sp) (camDistance s * cp * sy))"

definition target :: Vec3 where
  "target = Vec3 0 0 0"

definition worldUp :: Vec3 where
  "worldUp = Vec3 0 1 0"

definition forward :: "RenderSettings \<Rightarrow> Vec3" where
  "forward s = normalize_vec3 (sub target (camPos s))"

definition right :: "RenderSettings \<Rightarrow> Vec3" where
  "right s = normalize_vec3 (cross (forward s) worldUp)"

definition up :: "RenderSettings \<Rightarrow> Vec3" where
  "up s = cross (right s) (forward s)"

subsection \<open>The uniforms sent to the shader\<close>

record Uniforms =
  u_time :: real
  u_resolution :: "real \<times> real"
  u_camPos :: Vec3
  u_camForward :: Vec3
  u_camRight :: Vec3
  u_camUp :: Vec3
  u_fov :: real
  u_power :: real
  u_maxIter :: int
  u_bailout :: real
  u_maxSteps :: int
  u_maxDist :: real
  u_epsilon :: real
  u_colorA :: "real \<times> real \<times> real"
  u_colorB :: "real \<times> real \<times> real"
  u_enableAO :: int
  u_enableShadows :: int

definition uniforms :: "FrameInput \<Rightarrow> RenderSettings \<Rightarrow> Uniforms" where
  "uniforms f s =
     \<lparr> u_time = frame_time f,
       u_resolution = (of_int (fb_width f), of_int (fb_height f)),
       u_camPos = camPos s, u_camForward = forward s,
       u_camRight = right s, u_camUp = up s,
       u_fov = fov s,
       u_power = power_s s, u_maxIter = maxIterations s, u_bailout = bailout s,
       u_maxSteps = maxSteps s, u_maxDist = maxDist s, u_epsilon = epsilon s,
       u_colorA = colorA s, u_colorB = colorB s,
       u_enableAO = (if enableAO s then 1 else 0),
       u_enableShadows = (if enableShadows s then 1 else 0) \<rparr>"

subsection \<open>The frame and the loop\<close>

text \<open>
  One iteration of \<^verbatim>\<open>while (!glfwWindowShouldClose(window))\<close>: auto-rotation, the
  ImGui window, the clamp, then the camera basis and the uniforms from the clamped
  settings. The result is the settings carried to the next iteration and the uniforms
  drawn in this one.
\<close>

definition frame :: "FrameInput \<Rightarrow> RenderSettings \<Rightarrow> RenderSettings \<times> Uniforms" where
  "frame f s =
     (let s1 = auto_rotate (frame_time f) s;
          s2 = ui (frame_ui f) s1;
          s3 = clamp_camera s2
      in (s3, uniforms f s3))"

text \<open>
  The loop, run over the frames shown so far; \<^verbatim>\<open>settings\<close> is the one variable
  that survives an iteration. The loop ends when the window is closed, which is up to
  the user: \<open>run_frames\<close> gives the settings after any finite number of iterations and
  says nothing about the loop coming to an end.
\<close>

primrec run_frames :: "FrameInput list \<Rightarrow> RenderSettings \<Rightarrow> RenderSettings" where
  "run_frames [] s = s"
| "run_frames (f # fs) s = run_frames fs (fst (frame f s))"

subsection \<open>Properties of a basis\<close>

text \<open>
  Three unit vectors, pairwise perpendicular. A view frame is right-handed in the usual
  convention of a camera that looks along the negative third axis: right, up and the
  reverse of forward, in this order, satisfy \<open>right \<times> up = - forward\<close>.
\<close>

definition orthonormal :: "Vec3 \<Rightarrow> Vec3 \<Rightarrow> Vec3 \<Rightarrow> bool" where
  "orthonormal f r u \<longleftrightarrow>
     vlen f = 1 \<and> vlen r = 1 \<and> vlen u = 1 \<and> dot f r = 0 \<and> dot f u = 0 \<and> dot r u = 0"

definition right_handed :: "Vec3 \<Rightarrow> Vec3 \<Rightarrow> Vec3 \<Rightarrow> bool" where
  "right_handed f r u \<longleftrightarrow> cross r u = neg f"

subsection \<open>User actions used to state the properties\<close>

text \<open>
  These are not functions of the program. \<open>speed_untouched\<close> and \<open>yaw_untouched\<close>
  describe a frame in which the user changes neither the rotation speed, respectively
  the yaw: the slider is left alone (or its header is collapsed, so that the slider is
  not shown) and no reset button is pressed. \<open>busy_ui\<close> and \<open>idle_frame\<close> are sample
  inputs, with slider values inside the slider ranges. \<open>flush\<close> is a sample rounding
  function: exact, but for the reals of magnitude below \<open>tiny\<close>, which it maps to zero.
\<close>

definition speed_untouched :: "UiInput \<Rightarrow> bool" where
  "speed_untouched u \<longleftrightarrow>
     \<not> btnResetEverything u \<and> (\<not> hdrCamera u \<or> sldRotationSpeed u = None)"

definition yaw_untouched :: "UiInput \<Rightarrow> bool" where
  "yaw_untouched u \<longleftrightarrow>
     \<not> btnResetEverything u \<and> (\<not> hdrCamera u \<or> (sldYaw u = None \<and> \<not> btnResetCamera u))"

definition busy_ui :: UiInput where
  "busy_ui = idle_ui\<lparr> chkAutoRotate := Some False, sldDistance := Some 7, sldYaw := Some 1,
      sldPitch := Some (- 1), sldFov := Some 2, sldRotationSpeed := Some 1,
      sldPower := Some 12, sldIterations := Some 40, chkAO := Some False,
      edtColorA := Some (1, 0, 0) \<rparr>"

definition idle_frame :: "real \<Rightarrow> FrameInput" where
  "idle_frame t = \<lparr> frame_time = t, frame_ui = idle_ui, fb_width = 1280, fb_height = 720 \<rparr>"


section \<open>Facts about the vector helpers\<close>

lemma sumsq_nonneg: "0 \<le> a * a + b * b + c * (c::real)"
  by (simp add: add_nonneg_nonneg)

lemma sumsq_eq_0_iff: "a * a + b * b + c * c = 0 \<longleftrightarrow> a = 0 \<and> b = 0 \<and> c = (0::real)"
proof
  assume h: "a * a + b * b + c * c = 0"
  have "a * a = 0"
    using h zero_le_square [of a] zero_le_square [of b] zero_le_square [of c] by linarith
  moreover have "b * b = 0"
    using h zero_le_square [of a] zero_le_square [of b] zero_le_square [of c] by linarith
  moreover have "c * c = 0"
    using h zero_le_square [of a] zero_le_square [of b] zero_le_square [of c] by linarith
  ultimately show "a = 0 \<and> b = 0 \<and> c = 0" by simp
qed simp

lemma vlen_nonneg: "0 \<le> vlen v"
  by (simp add: vlen_def sumsq_nonneg)

lemma vlen_eq_0_iff: "vlen v = 0 \<longleftrightarrow> v = Vec3 0 0 0"
  by (cases v) (simp add: vlen_def sumsq_eq_0_iff)

lemma vlen_le_0_iff: "vlen v \<le> 0 \<longleftrightarrow> v = Vec3 0 0 0"
  using vlen_nonneg [of v] vlen_eq_0_iff [of v] by linarith

lemma normalize_vec3_alt:
  "normalize_vec3 v =
     (if vlen v \<le> 0 then Vec3 0 0 0
      else Vec3 (vx v / vlen v) (vy v / vlen v) (vz v / vlen v))"
  by (simp add: normalize_vec3_def vlen_def Let_def)

lemma normalize_vec3_zero: "normalize_vec3 (Vec3 0 0 0) = Vec3 0 0 0"
  by (simp add: normalize_vec3_def)

lemma vlen_sq: "vlen v * vlen v = vx v * vx v + vy v * vy v + vz v * vz v"
  by (simp add: vlen_def sumsq_nonneg)

lemma vlen_normalize_vec3:
  assumes "v \<noteq> Vec3 0 0 0"
  shows "vlen (normalize_vec3 v) = 1"
proof -
  have pos: "0 < vlen v"
    using assms vlen_nonneg [of v] vlen_eq_0_iff [of v] by linarith
  have "vlen (normalize_vec3 v) =
        sqrt ((vx v * vx v + vy v * vy v + vz v * vz v) / (vlen v * vlen v))"
    using pos by (simp add: normalize_vec3_alt vlen_def [of "Vec3 a b c" for a b c] add_divide_distrib)
  also have "\<dots> = sqrt 1"
    using pos by (simp add: vlen_sq [symmetric])
  finally show ?thesis by simp
qed

lemma normalize_vec3_eq_zero_iff: "normalize_vec3 v = Vec3 0 0 0 \<longleftrightarrow> v = Vec3 0 0 0"
proof
  assume h: "normalize_vec3 v = Vec3 0 0 0"
  show "v = Vec3 0 0 0"
  proof (rule ccontr)
    assume "v \<noteq> Vec3 0 0 0"
    then have "vlen (normalize_vec3 v) = 1" by (rule vlen_normalize_vec3)
    then show False using h by (simp add: vlen_def)
  qed
qed (simp add: normalize_vec3_zero)

lemma dot_cross_left: "dot (cross a b) a = 0"
  by (simp add: dot_def cross_def algebra_simps)

lemma dot_cross_right: "dot (cross a b) b = 0"
  by (simp add: dot_def cross_def algebra_simps)

lemma dot_commute: "dot a b = dot b a"
  by (simp add: dot_def mult.commute)

lemma vlen_sq_dot: "vlen v * vlen v = dot v v"
  by (simp add: vlen_sq dot_def)

lemma vlen_1_iff: "vlen v = 1 \<longleftrightarrow> dot v v = 1"
proof
  assume "vlen v = 1" then show "dot v v = 1" using vlen_sq_dot [of v] by simp
next
  assume "dot v v = 1"
  then have "vlen v = sqrt 1" by (simp add: vlen_def dot_def)
  then show "vlen v = 1" by simp
qed

lemma dot_normalize_0: "dot v w = 0 \<Longrightarrow> dot (normalize_vec3 v) w = 0"
proof -
  assume h: "dot v w = 0"
  have "dot (normalize_vec3 v) w = (if vlen v \<le> 0 then 0 else dot v w / vlen v)"
    by (simp add: normalize_vec3_alt dot_def add_divide_distrib)
  then show ?thesis using h by simp
qed

lemma cross_zero_left: "cross (Vec3 0 0 0) b = Vec3 0 0 0"
  by (simp add: cross_def)

lemma cross_worldUp: "cross f worldUp = Vec3 (- vz f) 0 (vx f)"
  by (simp add: cross_def worldUp_def)

text \<open>Lagrange's identity and the expansion of a double cross product.\<close>

lemma lagrange: "dot (cross a b) (cross a b) = dot a a * dot b b - dot a b * dot a b"
  by (simp add: dot_def cross_def algebra_simps)

lemma bac_cab: "cross a (cross a b) = Vec3 (vx a * dot a b - vx b * dot a a) (vy a * dot a b - vy b * dot a a) (vz a * dot a b - vz b * dot a a)"
  by (simp add: dot_def cross_def algebra_simps)

text \<open>
  The construction of the program, for any unit vector \<open>f\<close> and any \<open>w\<close> not parallel
  to it: \<open>r = normalize (f \<times> w)\<close> and \<open>u = r \<times> f\<close> complete \<open>f\<close> to an orthonormal,
  right-handed frame.
\<close>

lemma look_at_basis:
  assumes f: "vlen f = 1" and c: "cross f w \<noteq> Vec3 0 0 0"
  defines "r \<equiv> normalize_vec3 (cross f w)"
  defines "u \<equiv> cross r f"
  shows "orthonormal f r u" and "right_handed f r u"
proof -
  have ff: "dot f f = 1" using f by (simp add: vlen_1_iff)
  have "vlen r = 1" unfolding r_def using c by (rule vlen_normalize_vec3)
  then have rr: "dot r r = 1" by (simp add: vlen_1_iff)
  have rf: "dot r f = 0" unfolding r_def
    by (rule dot_normalize_0) (rule dot_cross_left)
  have "dot u u = 1" unfolding u_def by (simp add: lagrange rr ff rf)
  then have lu: "vlen u = 1" by (simp add: vlen_1_iff)
  have fu: "dot f u = 0" unfolding u_def using dot_cross_right [of r f] by (simp add: dot_commute)
  have ru: "dot r u = 0" unfolding u_def using dot_cross_left [of r f] by (simp add: dot_commute)
  have fr: "dot f r = 0" using rf by (simp add: dot_commute)
  show "orthonormal f r u"
    unfolding orthonormal_def using f \<open>vlen r = 1\<close> lu fr fu ru by simp
  have "cross r (cross r f) = Vec3 (- vx f) (- vy f) (- vz f)"
    by (simp add: bac_cab rr rf)
  then show "right_handed f r u"
    unfolding right_handed_def u_def by (simp add: neg_def)
qed

section \<open>The clamped pitch stays inside the poles\<close>

text \<open>
  The bound \<open>1.5 < \<pi>/2\<close> needs \<open>3 < \<pi>\<close>: from \<open>sin (\<pi>/6) = 1/2\<close>, the
  double-angle formula and \<open>sin x \<le> x\<close>.
\<close>

lemma pi_gt_3: "3 < pi"
proof -
  have s: "sin (pi / 12) \<le> pi / 12"
    by (rule sin_x_le_x) simp
  have s0: "0 < sin (pi / 12)"
    by (rule sin_gt_zero) simp_all
  have c1: "cos (pi / 12) < 1"
    using cos_double_less_one [of "pi / 24"] pi_less_4 by simp
  have "sin (pi / 6) = 2 * sin (pi / 12) * cos (pi / 12)"
    using sin_double [of "pi / 12"] by simp
  then have half: "1 / 2 = 2 * (sin (pi / 12) * cos (pi / 12))"
    by (simp add: sin_30)
  have "sin (pi / 12) * cos (pi / 12) < sin (pi / 12) * 1"
    using s0 c1 by (rule mult_strict_left_mono [OF _ _, rotated])
  then have "1 / 2 < 2 * (pi / 12)"
    using half s by linarith
  then show ?thesis by simp
qed

lemma cos_clamped_pos:
  assumes "- 1.5 \<le> p" and "p \<le> (1.5::real)"
  shows "0 < cos p"
proof (rule cos_gt_zero_pi)
  show "- (pi / 2) < p" using assms pi_gt_3 by simp
  show "p < pi / 2" using assms pi_gt_3 by simp
qed

section \<open>Facts about the camera position and the forward vector\<close>

lemma spherical_sumsq:
  fixes d cp sp cy sy :: real
  assumes y: "cy * cy + sy * sy = 1" and p: "cp * cp + sp * sp = 1"
  shows "d * cp * cy * (d * cp * cy) + d * sp * (d * sp) + d * cp * sy * (d * cp * sy) = d * d"
proof -
  have "d * cp * cy * (d * cp * cy) + d * sp * (d * sp) + d * cp * sy * (d * cp * sy)
        = d * d * (cp * cp * (cy * cy + sy * sy) + sp * sp)"
    by (simp only: algebra_simps)
  also have "\<dots> = d * d" by (simp only: y p mult_1_right)
  finally show ?thesis .
qed

lemma camPos_dot: "dot (camPos s) (camPos s) = camDistance s * camDistance s"
  unfolding camPos_def dot_def Let_def Vec3.sel
  by (rule spherical_sumsq) simp_all

lemma vlen_camPos: "vlen (camPos s) = \<bar>camDistance s\<bar>"
proof -
  have "vlen (camPos s) = sqrt (dot (camPos s) (camPos s))"
    by (simp add: vlen_def dot_def)
  then show ?thesis by (simp add: camPos_dot)
qed

lemma vlen_sub_target: "vlen (sub target v) = vlen v"
  by (simp add: vlen_def sub_def target_def)

lemma forward_eq:
  "forward s =
     Vec3 (- (sgn (camDistance s) * (cos (camPitch s) * cos (camYaw s))))
          (- (sgn (camDistance s) * sin (camPitch s)))
          (- (sgn (camDistance s) * (cos (camPitch s) * sin (camYaw s))))"
proof -
  define v where "v = sub target (camPos s)"
  have len: "vlen v = \<bar>camDistance s\<bar>"
    by (simp add: v_def vlen_sub_target vlen_camPos)
  have fwd: "forward s =
      (if \<bar>camDistance s\<bar> \<le> 0 then Vec3 0 0 0
       else Vec3 (vx v / \<bar>camDistance s\<bar>) (vy v / \<bar>camDistance s\<bar>) (vz v / \<bar>camDistance s\<bar>))"
    unfolding forward_def v_def [symmetric] normalize_vec3_alt len ..
  have v: "v = Vec3 (- (camDistance s * cos (camPitch s) * cos (camYaw s)))
                    (- (camDistance s * sin (camPitch s)))
                    (- (camDistance s * cos (camPitch s) * sin (camYaw s)))"
    by (simp add: v_def sub_def target_def camPos_def Let_def)
  show ?thesis
  proof (cases "camDistance s = 0")
    case True
    then show ?thesis by (simp add: fwd)
  next
    case False
    then show ?thesis by (simp add: fwd v real_sgn_eq)
  qed
qed

lemma forward_unit: "camDistance s \<noteq> 0 \<Longrightarrow> vlen (forward s) = 1"
proof -
  assume d: "camDistance s \<noteq> 0"
  have "vlen (sub target (camPos s)) \<noteq> 0"
    using d by (simp add: vlen_sub_target vlen_camPos)
  then have "sub target (camPos s) \<noteq> Vec3 0 0 0"
    by (simp add: vlen_eq_0_iff)
  then show ?thesis unfolding forward_def by (rule vlen_normalize_vec3)
qed

lemma cos_sin_not_both_0: "c * cos y = 0 \<and> c * sin y = 0 \<longleftrightarrow> c = (0::real)"
proof
  assume h: "c * cos y = 0 \<and> c * sin y = 0"
  have "c * c = c * c * (cos y * cos y + sin y * sin y)" by simp
  also have "\<dots> = (c * cos y) * (c * cos y) + (c * sin y) * (c * sin y)"
    by (simp only: algebra_simps)
  also have "\<dots> = 0" using h by simp
  finally show "c = 0" by simp
qed simp

lemma degenerate_iff:
  "cross (forward s) worldUp = Vec3 0 0 0 \<longleftrightarrow> camDistance s = 0 \<or> cos (camPitch s) = 0"
proof (cases "camDistance s = 0")
  case True
  then show ?thesis by (simp add: cross_worldUp forward_eq)
next
  case False
  then show ?thesis
    using cos_sin_not_both_0 [of "cos (camPitch s)" "camYaw s"]
    by (auto simp add: cross_worldUp forward_eq sgn_eq_0_iff)
qed

lemma nondegenerate_basis:
  assumes "cross (forward s) worldUp \<noteq> Vec3 0 0 0"
  shows "orthonormal (forward s) (right s) (up s) \<and> right_handed (forward s) (right s) (up s)"
proof -
  have "camDistance s \<noteq> 0" using assms by (simp add: degenerate_iff)
  then have "vlen (forward s) = 1" by (rule forward_unit)
  then show ?thesis
    unfolding right_def up_def using assms by (simp add: look_at_basis)
qed

lemma degenerate_basis:
  assumes "cross (forward s) worldUp = Vec3 0 0 0"
  shows "right s = Vec3 0 0 0 \<and> up s = Vec3 0 0 0"
  by (simp add: right_def up_def assms normalize_vec3_zero cross_zero_left)

lemma pole_forward:
  assumes d: "camDistance s \<noteq> 0" and c: "cos (camPitch s) = 0"
  shows "forward s = Vec3 0 1 0 \<or> forward s = Vec3 0 (- 1) 0"
proof -
  have "sin (camPitch s) * sin (camPitch s) = 1"
    using sin_cos_squared_add3 [of "camPitch s"] c by simp
  then have sp: "sin (camPitch s) = 1 \<or> sin (camPitch s) = - 1"
    by (simp add: power2_eq_1_iff power2_eq_square [symmetric])
  have sg: "sgn (camDistance s) = 1 \<or> sgn (camDistance s) = - 1"
    using d by (cases "0 < camDistance s") simp_all
  show ?thesis using sp sg by (auto simp add: forward_eq c)
qed

lemma clamped_nondegenerate:
  assumes "- 1.5 \<le> camPitch s" and "camPitch s \<le> 1.5" and "0.5 \<le> camDistance s"
  shows "cross (forward s) worldUp \<noteq> Vec3 0 0 0"
proof -
  have "0 < cos (camPitch s)" using assms(1,2) by (rule cos_clamped_pos)
  then show ?thesis using assms(3) by (simp add: degenerate_iff)
qed

section \<open>Facts about the steps of a frame\<close>

lemma widget_simps [simp]: "widget None old = old" "widget (Some v) old = v"
  by (simp_all add: widget_def)

lemma std_clamp_idem: "lo \<le> hi \<Longrightarrow> std_clamp (std_clamp v lo hi) lo hi = std_clamp v lo hi"
  by (simp add: std_clamp_def)

lemma std_max_idem: "std_max (std_max a b) b = std_max a b"
  by (simp add: std_max_def)

lemma clamp_camera_idem: "clamp_camera (clamp_camera s) = clamp_camera s"
  by (simp add: clamp_camera_def std_clamp_idem std_max_idem)

lemma clamp_camera_bounds:
  "- 1.5 \<le> camPitch (clamp_camera s) \<and> camPitch (clamp_camera s) \<le> 1.5 \<and>
   0.5 \<le> camDistance (clamp_camera s)"
  by (simp add: clamp_camera_def std_clamp_def std_max_def)

lemma fst_frame: "fst (frame f s) = clamp_camera (ui (frame_ui f) (auto_rotate (frame_time f) s))"
  by (simp add: frame_def Let_def)

lemma snd_frame: "snd (frame f s) = uniforms f (fst (frame f s))"
  by (simp add: frame_def Let_def)

lemma rotationSpeed_auto_rotate: "rotationSpeed (auto_rotate t s) = rotationSpeed s"
  by (simp add: auto_rotate_def)

lemma rotationSpeed_ui:
  "speed_untouched u \<Longrightarrow> rotationSpeed (ui u s) = rotationSpeed s"
  by (auto simp add: speed_untouched_def ui_def reset_everything_def ui_shading_def
      ui_raymarch_def ui_fractal_def ui_camera_def reset_camera_def Let_def)

lemma camYaw_ui:
  "yaw_untouched u \<Longrightarrow> camYaw (ui u s) = camYaw s"
  by (auto simp add: yaw_untouched_def ui_def reset_everything_def ui_shading_def
      ui_raymarch_def ui_fractal_def ui_camera_def reset_camera_def Let_def)

lemma rotationSpeed_frame:
  "speed_untouched (frame_ui f) \<Longrightarrow> rotationSpeed (fst (frame f s)) = rotationSpeed s"
  by (simp add: frame_def Let_def clamp_camera_def rotationSpeed_ui rotationSpeed_auto_rotate)

lemma camYaw_frame:
  "yaw_untouched (frame_ui f) \<Longrightarrow>
   camYaw (fst (frame f s)) = camYaw (auto_rotate (frame_time f) s)"
  by (simp add: frame_def Let_def clamp_camera_def camYaw_ui)

lemma rotationSpeed_run_frames:
  "\<forall>g \<in> set fs. speed_untouched (frame_ui g) \<Longrightarrow>
   rotationSpeed (run_frames fs s) = rotationSpeed s"
  by (induction fs arbitrary: s) (simp_all add: rotationSpeed_frame)

section \<open>The camera basis is orthonormal away from the poles\<close>

text \<open>
  Claim C1. For all yaw, pitch and distance, the basis \<open>forward\<close>, \<open>right\<close>, \<open>up\<close>
  consists of three mutually perpendicular unit vectors forming a right-handed view
  frame (\<open>right \<times> up = - forward\<close>), except in the degenerate configurations in which
  \<open>forward\<close> is parallel to \<open>worldUp\<close>, that is, \<open>forward \<times> worldUp\<close> is the zero vector.
  This happens exactly when the pitch is at a vertical pole (\<open>cos pitch = 0\<close>) or the
  distance is zero; with a non-zero distance the poles are the two configurations
  \<open>forward = (0, 1, 0)\<close> and \<open>forward = (0, -1, 0)\<close>. In a degenerate configuration the
  guard of \<open>normalize_vec3\<close> returns the zero vector for \<open>right\<close>, no division takes
  place, and \<open>up\<close> is the zero vector as well: a defined, non-orthonormal result.
\<close>

theorem camera_basis_orthonormal_off_poles:
  "(cross (forward s) worldUp = Vec3 0 0 0 \<longleftrightarrow> camDistance s = 0 \<or> cos (camPitch s) = 0) \<and>
   (cross (forward s) worldUp \<noteq> Vec3 0 0 0 \<longrightarrow>
      orthonormal (forward s) (right s) (up s) \<and> right_handed (forward s) (right s) (up s)) \<and>
   (cross (forward s) worldUp = Vec3 0 0 0 \<longrightarrow> right s = Vec3 0 0 0 \<and> up s = Vec3 0 0 0) \<and>
   (camDistance s \<noteq> 0 \<and> cos (camPitch s) = 0 \<longrightarrow>
      forward s = Vec3 0 1 0 \<or> forward s = Vec3 0 (- 1) 0)"
  using degenerate_iff [of s] nondegenerate_basis [of s] degenerate_basis [of s]
    pole_forward [of s] by blast

text \<open>
  Both cases occur: pitch \<open>0\<close> at distance \<open>4\<close> is not degenerate, pitch \<open>\<pi>/2\<close> is.
\<close>

theorem camera_basis_orthonormal_off_poles_witness:
  "orthonormal (forward (default_settings\<lparr>camPitch := 0\<rparr>))
     (right (default_settings\<lparr>camPitch := 0\<rparr>)) (up (default_settings\<lparr>camPitch := 0\<rparr>)) \<and>
   right_handed (forward (default_settings\<lparr>camPitch := 0\<rparr>))
     (right (default_settings\<lparr>camPitch := 0\<rparr>)) (up (default_settings\<lparr>camPitch := 0\<rparr>)) \<and>
   right (default_settings\<lparr>camPitch := pi / 2\<rparr>) = Vec3 0 0 0 \<and>
   up (default_settings\<lparr>camPitch := pi / 2\<rparr>) = Vec3 0 0 0 \<and>
   (forward (default_settings\<lparr>camPitch := pi / 2\<rparr>) = Vec3 0 1 0 \<or>
    forward (default_settings\<lparr>camPitch := pi / 2\<rparr>) = Vec3 0 (- 1) 0)"
  using camera_basis_orthonormal_off_poles [of "default_settings\<lparr>camPitch := 0\<rparr>"]
    camera_basis_orthonormal_off_poles [of "default_settings\<lparr>camPitch := pi / 2\<rparr>"]
  by (simp add: default_settings_def)

section \<open>Reset everything\<close>

text \<open>
  Claim C2. When "Reset everything" is pressed, the settings after the ImGui window are
  the default snapshot, whatever the settings were before and whatever the other widgets
  stored in the same frame: the whole struct is replaced by one assignment. The clamp
  that follows leaves the defaults as they are, so the settings at the end of the frame
  are the defaults, field by field.
\<close>

theorem reset_everything_restores_defaults:
  assumes "btnResetEverything (frame_ui f)"
  shows "ui (frame_ui f) s =
           \<lparr> camDistance = 4, camYaw = 0, camPitch = 0.4, fov = 1,
             autoRotate = True, rotationSpeed = 0.2,
             power_s = 8, maxIterations = 18, bailout = 2,
             maxSteps = 200, maxDist = 25, epsilon = 0.001,
             enableAO = True, enableShadows = True,
             colorA = (0.2, 0.3, 0.6), colorB = (0.8, 0.9, 1.0) \<rparr> \<and>
         fst (frame f s) = ui (frame_ui f) s \<and>
         fst (frame f s) = default_settings"
  using assms
  by (simp add: frame_def ui_def reset_everything_def Let_def clamp_camera_def
      std_clamp_def std_max_def default_settings_def)

theorem reset_everything_restores_defaults_witness:
  "btnResetEverything (busy_ui\<lparr>btnResetEverything := True\<rparr>) \<and>
   ui (busy_ui\<lparr>btnResetEverything := True\<rparr>)
      (default_settings\<lparr>camDistance := 9, autoRotate := False, maxSteps := 64\<rparr>) = default_settings"
  using reset_everything_restores_defaults
    [of "\<lparr>frame_time = 3, frame_ui = busy_ui\<lparr>btnResetEverything := True\<rparr>,
          fb_width = 1280, fb_height = 720\<rparr>"
        "default_settings\<lparr>camDistance := 9, autoRotate := False, maxSteps := 64\<rparr>"]
  by (simp add: default_settings_def)

section \<open>Reset camera\<close>

text \<open>
  Claim C3, as stated, fails: "Reset camera" assigns four fields only. With auto-rotation
  switched off and the rotation speed at \<open>0.5\<close>, pressing the button leaves both as they
  are, not at their defaults \<open>true\<close> and \<open>0.2\<close>.
\<close>

theorem reset_camera_counterexample:
  "autoRotate (ui_camera (idle_ui\<lparr>btnResetCamera := True\<rparr>)
       (default_settings\<lparr>autoRotate := False, rotationSpeed := 0.5\<rparr>)) \<noteq> autoRotate default_settings \<and>
   rotationSpeed (ui_camera (idle_ui\<lparr>btnResetCamera := True\<rparr>)
       (default_settings\<lparr>autoRotate := False, rotationSpeed := 0.5\<rparr>)) \<noteq> rotationSpeed default_settings"
  by (simp add: ui_camera_def idle_ui_def reset_camera_def default_settings_def)

text \<open>
  Claim C3, amended. The "Reset camera" action restores \<open>camDistance\<close>, \<open>camYaw\<close>,
  \<open>camPitch\<close> and \<open>fov\<close> to their defaults and leaves every other field unchanged,
  \<open>autoRotate\<close> and \<open>rotationSpeed\<close> included. So in a frame in which the button is
  pressed, the "Camera" section leaves these four fields at their defaults,
  \<open>autoRotate\<close> and \<open>rotationSpeed\<close> as their own widgets left them, and all fields of
  the fractal, raymarch and shading groups unchanged.
\<close>

theorem reset_camera_frame:
  assumes "hdrCamera u" and "btnResetCamera u"
  shows "ui_camera u s =
           s\<lparr> camDistance := camDistance default_settings,
              camYaw := camYaw default_settings,
              camPitch := camPitch default_settings,
              fov := fov default_settings,
              autoRotate := widget (chkAutoRotate u) (autoRotate s),
              rotationSpeed := widget (sldRotationSpeed u) (rotationSpeed s) \<rparr> \<and>
         reset_camera s =
           s\<lparr> camDistance := camDistance default_settings,
              camYaw := camYaw default_settings,
              camPitch := camPitch default_settings,
              fov := fov default_settings \<rparr>"
  using assms by (simp add: ui_camera_def reset_camera_def Let_def default_settings_def)

theorem reset_camera_frame_witness:
  "ui_camera (busy_ui\<lparr>btnResetCamera := True\<rparr>) (default_settings\<lparr>maxSteps := 64\<rparr>) =
     default_settings\<lparr>maxSteps := 64, autoRotate := False, rotationSpeed := 1\<rparr> \<and>
   reset_camera (default_settings\<lparr>camDistance := 9, camYaw := 1, rotationSpeed := 1\<rparr>) =
     default_settings\<lparr>rotationSpeed := 1\<rparr>"
  using reset_camera_frame [of "busy_ui\<lparr>btnResetCamera := True\<rparr>" "default_settings\<lparr>maxSteps := 64\<rparr>"]
    reset_camera_frame [of "busy_ui\<lparr>btnResetCamera := True\<rparr>"
      "default_settings\<lparr>camDistance := 9, camYaw := 1, rotationSpeed := 1\<rparr>"]
  by (simp add: busy_ui_def idle_ui_def default_settings_def)

section \<open>Auto-rotation is a function of time\<close>

text \<open>
  Claim C4. With \<open>autoRotate\<close> set, a frame overwrites \<open>camYaw\<close> with the elapsed time
  multiplied by \<open>rotationSpeed\<close>. So, for a rotation speed that the user leaves alone, the
  yaw at time \<open>t0 + dt\<close> is \<open>(t0 + dt) * rotationSpeed\<close>, whatever frames \<open>fs\<close> were shown
  before, however many, and whatever else happened in them (the yaw slider dragged,
  auto-rotation paused and resumed): nothing accumulates. This holds right after the
  overwrite, and at the end of a frame in which the user does not touch the yaw.
\<close>

theorem auto_rotate_function_of_time:
  assumes "\<forall>g \<in> set fs. speed_untouched (frame_ui g)"
    and "autoRotate (run_frames fs s)"
  shows "camYaw (auto_rotate (t0 + dt) (run_frames fs s)) = (t0 + dt) * rotationSpeed s \<and>
         (frame_time f = t0 + dt \<and> yaw_untouched (frame_ui f) \<longrightarrow>
            camYaw (fst (frame f (run_frames fs s))) = (t0 + dt) * rotationSpeed s)"
  using assms
  by (simp add: camYaw_frame) (simp add: auto_rotate_def rotationSpeed_run_frames)

text \<open>
  An instance with a pause: auto-rotation is switched off in the frame at time \<open>1\<close>,
  switched on again in the frame at time \<open>2\<close> while the yaw slider is dragged to \<open>3\<close>;
  at time \<open>5\<close> the yaw is \<open>5 * 0.2 = 1\<close>.
\<close>

theorem auto_rotate_function_of_time_witness:
  "camYaw (auto_rotate (2 + 3)
      (run_frames [(idle_frame 1)\<lparr>frame_ui := idle_ui\<lparr>chkAutoRotate := Some False\<rparr>\<rparr>,
                   (idle_frame 2)\<lparr>frame_ui := idle_ui\<lparr>chkAutoRotate := Some True, sldYaw := Some 3\<rparr>\<rparr>]
         default_settings)) = 1 \<and>
   camYaw (fst (frame (idle_frame 5)
      (run_frames [(idle_frame 1)\<lparr>frame_ui := idle_ui\<lparr>chkAutoRotate := Some False\<rparr>\<rparr>,
                   (idle_frame 2)\<lparr>frame_ui := idle_ui\<lparr>chkAutoRotate := Some True, sldYaw := Some 3\<rparr>\<rparr>]
         default_settings))) = 1"
  using auto_rotate_function_of_time
    [of "[(idle_frame 1)\<lparr>frame_ui := idle_ui\<lparr>chkAutoRotate := Some False\<rparr>\<rparr>,
          (idle_frame 2)\<lparr>frame_ui := idle_ui\<lparr>chkAutoRotate := Some True, sldYaw := Some 3\<rparr>\<rparr>]"
        default_settings 2 3 "idle_frame 5"]
  by (simp add: idle_frame_def idle_ui_def default_settings_def speed_untouched_def
      yaw_untouched_def frame_def ui_def reset_everything_def ui_shading_def ui_raymarch_def
      ui_fractal_def ui_camera_def auto_rotate_def clamp_camera_def std_clamp_def std_max_def
      Let_def)

section \<open>Normalising zero and near-zero vectors\<close>

text \<open>With the identity for the rounding, the rounded model is the exact one.\<close>

lemma normalize_vec3_fl_exact: "normalize_vec3_fl (\<lambda>x. x) v = Inr (normalize_vec3 v)"
  by (simp add: normalize_vec3_fl_def normalize_vec3_def len_fl_def div_fl_def Let_def)





section \<open>The camera position lies on the sphere\<close>

text \<open>
  Claim C6. For every yaw, every pitch and every clamped distance (at least \<open>0.5\<close>), the
  camera position is \<open>(d cos p cos y, d sin p, d cos p sin y)\<close> and its Euclidean norm is
  the camera distance.
\<close>

theorem camPos_on_sphere:
  assumes "0.5 \<le> camDistance s"
  shows "camPos s =
           Vec3 (camDistance s * cos (camPitch s) * cos (camYaw s))
                (camDistance s * sin (camPitch s))
                (camDistance s * cos (camPitch s) * sin (camYaw s)) \<and>
         vlen (camPos s) = camDistance s"
  using assms by (simp add: vlen_camPos) (simp add: camPos_def Let_def)

theorem camPos_on_sphere_witness:
  "0.5 \<le> camDistance default_settings \<and> vlen (camPos default_settings) = 4"
proof -
  have d: "camDistance default_settings = 4" by (simp add: default_settings_def)
  have h: "0.5 \<le> camDistance default_settings" by (simp add: d)
  have "vlen (camPos default_settings) = camDistance default_settings"
    using camPos_on_sphere [OF h] by (rule conjunct2)
  then show ?thesis using h by (simp add: d)
qed

section \<open>The clamp is idempotent and runs in every frame\<close>

text \<open>
  Claim C7. Applying the pitch and distance clamp twice gives the same settings as
  applying it once, for every settings value. Every frame applies it after the ImGui
  window and before the camera basis is computed: the settings a frame ends with are
  clamped (the pitch within \<open>[-1.5, 1.5]\<close>, the distance at least \<open>0.5\<close>, and a second
  clamp changes nothing), and the camera uniforms of the frame are computed from them.
\<close>

theorem clamp_camera_idempotent_every_frame:
  "clamp_camera (clamp_camera s) = clamp_camera s \<and>
   fst (frame f s) = clamp_camera (ui (frame_ui f) (auto_rotate (frame_time f) s)) \<and>
   clamp_camera (fst (frame f s)) = fst (frame f s) \<and>
   - 1.5 \<le> camPitch (fst (frame f s)) \<and> camPitch (fst (frame f s)) \<le> 1.5 \<and>
   0.5 \<le> camDistance (fst (frame f s)) \<and>
   u_camPos (snd (frame f s)) = camPos (fst (frame f s)) \<and>
   u_camForward (snd (frame f s)) = forward (fst (frame f s)) \<and>
   u_camRight (snd (frame f s)) = right (fst (frame f s)) \<and>
   u_camUp (snd (frame f s)) = up (fst (frame f s))"
  using clamp_camera_bounds [of "ui (frame_ui f) (auto_rotate (frame_time f) s)"]
  by (simp add: snd_frame uniforms_def) (simp add: fst_frame clamp_camera_idem)

section \<open>The end-to-end scenario\<close>

text \<open>
  Claim C8. With \<open>camDistance = 4\<close>, \<open>camYaw = 0\<close> and \<open>camPitch = 0\<close> the camera is at
  \<open>(4, 0, 0)\<close>, \<open>forward\<close> is \<open>(-1, 0, 0)\<close>, \<open>up\<close> is \<open>(0, 1, 0)\<close> and \<open>right\<close> is one of
  \<open>(0, 0, -1)\<close> and \<open>(0, 0, 1)\<close>: the program's \<open>forward \<times> worldUp\<close> yields \<open>(0, 0, -1)\<close>.
\<close>

theorem camera_scenario:
  assumes "camDistance s = 4" and "camYaw s = 0" and "camPitch s = 0"
  shows "camPos s = Vec3 4 0 0 \<and> forward s = Vec3 (- 1) 0 0 \<and>
         right s = Vec3 0 0 (- 1) \<and> up s = Vec3 0 1 0 \<and>
         (right s = Vec3 0 0 (- 1) \<or> right s = Vec3 0 0 1)"
proof -
  have p: "camPos s = Vec3 4 0 0" using assms by (simp add: camPos_def)
  have f: "forward s = Vec3 (- 1) 0 0" using assms by (simp add: forward_eq)
  have r: "right s = Vec3 0 0 (- 1)"
    by (simp add: right_def f cross_worldUp normalize_vec3_def)
  have u: "up s = Vec3 0 1 0" by (simp add: up_def r f cross_def)
  show ?thesis using p f r u by simp
qed

theorem camera_scenario_witness:
  "camPos (default_settings\<lparr>camPitch := 0\<rparr>) = Vec3 4 0 0 \<and>
   forward (default_settings\<lparr>camPitch := 0\<rparr>) = Vec3 (- 1) 0 0 \<and>
   right (default_settings\<lparr>camPitch := 0\<rparr>) = Vec3 0 0 (- 1) \<and>
   up (default_settings\<lparr>camPitch := 0\<rparr>) = Vec3 0 1 0"
  using camera_scenario [of "default_settings\<lparr>camPitch := 0\<rparr>"]
  by (simp add: default_settings_def)

section \<open>The poles are out of reach of the frame pipeline\<close>

text \<open>
  Claim C9. For every yaw, every pitch in the clamped range \<open>[-1.5, 1.5]\<close> and every
  distance of at least \<open>0.5\<close>, \<open>forward\<close> is not parallel to \<open>worldUp\<close>: the cross
  product \<open>forward \<times> worldUp\<close> is not the zero vector, its length is positive (so the
  zero branch of \<open>normalize_vec3\<close> is not taken for \<open>right\<close>, which has unit length),
  and the basis is orthonormal. Since every frame clamps before it computes the basis,
  the basis sent to the shader is orthonormal in every frame \<open>f\<close>, from every state \<open>s0\<close>.
\<close>

theorem pole_unreachable_when_clamped:
  assumes "- 1.5 \<le> camPitch s" and "camPitch s \<le> 1.5" and "0.5 \<le> camDistance s"
  shows "cross (forward s) worldUp \<noteq> Vec3 0 0 0 \<and>
         0 < vlen (cross (forward s) worldUp) \<and>
         vlen (right s) = 1 \<and>
         orthonormal (forward s) (right s) (up s) \<and>
         orthonormal (u_camForward (snd (frame f s0))) (u_camRight (snd (frame f s0)))
           (u_camUp (snd (frame f s0)))"
proof -
  have c: "cross (forward s) worldUp \<noteq> Vec3 0 0 0"
    using assms by (rule clamped_nondegenerate)
  then have l: "0 < vlen (cross (forward s) worldUp)"
    using vlen_nonneg [of "cross (forward s) worldUp"] vlen_eq_0_iff [of "cross (forward s) worldUp"]
    by linarith
  have o: "orthonormal (forward s) (right s) (up s)"
    using nondegenerate_basis [OF c] by simp
  then have r: "vlen (right s) = 1" by (simp add: orthonormal_def)
  have "cross (forward (fst (frame f s0))) worldUp \<noteq> Vec3 0 0 0"
    using clamp_camera_bounds [of "ui (frame_ui f) (auto_rotate (frame_time f) s0)"]
    by (simp add: fst_frame clamped_nondegenerate)
  then have "orthonormal (forward (fst (frame f s0))) (right (fst (frame f s0))) (up (fst (frame f s0)))"
    using nondegenerate_basis by simp
  then show ?thesis using c l o r by (simp add: snd_frame uniforms_def)
qed

theorem pole_unreachable_when_clamped_witness:
  "- 1.5 \<le> camPitch default_settings \<and> camPitch default_settings \<le> 1.5 \<and>
   0.5 \<le> camDistance default_settings \<and>
   cross (forward default_settings) worldUp \<noteq> Vec3 0 0 0 \<and>
   orthonormal (forward default_settings) (right default_settings) (up default_settings)"
  using pole_unreachable_when_clamped [of default_settings]
  by (simp add: default_settings_def)

section \<open>The camera reads three fields only\<close>

text \<open>
  Claim C10. Two settings that agree on \<open>camDistance\<close>, \<open>camYaw\<close> and \<open>camPitch\<close> give
  the same position, \<open>forward\<close>, \<open>right\<close> and \<open>up\<close>, whatever their other fields are: the
  camera computation reads these three fields and the constants \<open>target\<close> and \<open>worldUp\<close>,
  and nothing else.
\<close>

theorem camera_reads_three_fields:
  assumes "camDistance s = camDistance s'" and "camYaw s = camYaw s'"
    and "camPitch s = camPitch s'"
  shows "camPos s = camPos s' \<and> forward s = forward s' \<and> right s = right s' \<and> up s = up s'"
proof -
  have p: "camPos s = camPos s'" using assms by (simp add: camPos_def)
  then have f: "forward s = forward s'" by (simp add: forward_def)
  then have r: "right s = right s'" by (simp add: right_def)
  then show ?thesis using p f by (simp add: up_def)
qed

theorem camera_reads_three_fields_witness:
  "default_settings\<lparr>fov := 2, autoRotate := False, power_s := 12, colorA := (1, 0, 0)\<rparr>
     \<noteq> default_settings \<and>
   camPos (default_settings\<lparr>fov := 2, autoRotate := False, power_s := 12, colorA := (1, 0, 0)\<rparr>)
     = camPos default_settings \<and>
   forward (default_settings\<lparr>fov := 2, autoRotate := False, power_s := 12, colorA := (1, 0, 0)\<rparr>)
     = forward default_settings \<and>
   right (default_settings\<lparr>fov := 2, autoRotate := False, power_s := 12, colorA := (1, 0, 0)\<rparr>)
     = right default_settings \<and>
   up (default_settings\<lparr>fov := 2, autoRotate := False, power_s := 12, colorA := (1, 0, 0)\<rparr>)
     = up default_settings"
  using camera_reads_three_fields
    [of "default_settings\<lparr>fov := 2, autoRotate := False, power_s := 12, colorA := (1, 0, 0)\<rparr>"
        default_settings]
  by (simp add: default_settings_def)

end
